theory Spec2Isabelle
  imports Main
begin

section \<open>Data model (server/prisma/migrations, tables read by routes/bookings.ts)\<close>

text \<open>
  The enum \<open>BookingStatus\<close> of the migration. Timestamps are JavaScript \<open>Date\<close> values,
  stored as \<open>TIMESTAMP(3)\<close>: an integer number of milliseconds since the epoch.
\<close>

datatype BookingStatus = PENDING | CONFIRMED | CANCELLED | COMPLETED | NO_SHOW

text \<open>
  A row of table \<open>bookings\<close>. The primary key column \<open>id\<close> is called \<open>id_booking\<close> here
  (\<open>id\<close> is HOL's identity function). The clock columns \<open>createdAt\<close> and \<open>updatedAt\<close> are
  written by the database only and read by no route of bookings.ts; they are left out.
  Column \<open>notes\<close> is \<open>notes_booking\<close> (\<open>notes\<close> is a keyword of Isabelle).
\<close>

record booking =
  id_booking :: string
  startTime :: int
  endTime :: int
  status :: BookingStatus
  notes_booking :: "string option"

text \<open>Rows of the join tables \<open>bookings_on_users\<close> and \<open>bookings_on_services\<close>.\<close>

record booking_on_user =
  bu_bookingId :: string
  userId :: string

record booking_on_service =
  bs_bookingId :: string
  serviceId :: string

text \<open>
  The database as the bookings route sees it. Of tables \<open>users\<close> and \<open>services\<close> only the
  primary keys matter here (the join tables reference them by foreign key).
\<close>

record db =
  users :: "string list"
  services :: "string list"
  bookings :: "booking list"
  bookings_on_users :: "booking_on_user list"
  bookings_on_services :: "booking_on_service list"

section \<open>Prisma \<open>where\<close> clauses used by routes/bookings.ts\<close>

text \<open>
  A date-time field filter is an object of comparison keys, all of which must hold:
  \<open>{ lt: e, gte: s }\<close> is \<open>[Lt e, Gte s]\<close>.
\<close>

datatype date_cond = Lt int | Lte int | Gt int | Gte int

fun holds_cond :: "int \<Rightarrow> date_cond \<Rightarrow> bool" where
  "holds_cond v (Lt x) = (v < x)"
| "holds_cond v (Lte x) = (v \<le> x)"
| "holds_cond v (Gt x) = (x < v)"
| "holds_cond v (Gte x) = (x \<le> v)"

text \<open>
  The keys of a \<open>where\<close> object that occur in bookings.ts: the two time columns, \<open>id: { not }\<close>,
  \<open>status\<close>, the relation filters \<open>users: { some: { userId } }\<close> and
  \<open>services: { some: { serviceId } }\<close>, and \<open>OR\<close>. An object with several keys is the
  conjunction of its keys and is written as the list of its keys.
\<close>

datatype where_key =
    W_startTime "date_cond list"
  | W_endTime "date_cond list"
  | W_id_not string
  | W_status BookingStatus
  | W_users_some string
  | W_services_some string
  | W_OR "where_key list list"

fun matches :: "db \<Rightarrow> booking \<Rightarrow> where_key \<Rightarrow> bool" where
  "matches d b (W_startTime cs) = list_all (holds_cond (startTime b)) cs"
| "matches d b (W_endTime cs) = list_all (holds_cond (endTime b)) cs"
| "matches d b (W_id_not i) = (id_booking b \<noteq> i)"
| "matches d b (W_status s) = (status b = s)"
| "matches d b (W_users_some u) =
     list_ex (\<lambda>l. bu_bookingId l = id_booking b \<and> userId l = u) (bookings_on_users d)"
| "matches d b (W_services_some s) =
     list_ex (\<lambda>l. bs_bookingId l = id_booking b \<and> serviceId l = s) (bookings_on_services d)"
| "matches d b (W_OR os) = list_ex (\<lambda>obj. list_all (\<lambda>k. matches d b k) obj) os"

definition matches_where :: "db \<Rightarrow> where_key list \<Rightarrow> booking \<Rightarrow> bool" where
  "matches_where d w b = list_all (matches d b) w"

text \<open>
  \<open>prisma.booking.findFirst({ where })\<close>: the first row that matches, or \<open>null\<close>.
  Neither call of bookings.ts gives an \<open>orderBy\<close>, so which of several matching rows
  comes first is the database's choice: the order of the list \<open>bookings d\<close> stands for
  the order in which the database happens to scan the table, and is not tied to keys or
  times. The handlers test the result for \<open>null\<close> only, and whether a row is found
  does not depend on the order.
  \<open>prisma.booking.findUnique({ where: { id } })\<close>: the row with that key.
\<close>

definition findFirst :: "db \<Rightarrow> where_key list \<Rightarrow> booking option" where
  "findFirst d w = find (matches_where d w) (bookings d)"

definition findUnique :: "db \<Rightarrow> string \<Rightarrow> booking option" where
  "findUnique d i = find (\<lambda>b. id_booking b = i) (bookings d)"

text \<open>
  The \<open>OR\<close> key that both handlers build from the request's \<open>startTime\<close> and \<open>endTime\<close>
  (bookings.ts lines 241-254 and 350-363).
\<close>

definition conflict_OR :: "int \<Rightarrow> int \<Rightarrow> where_key" where
  "conflict_OR s e =
     W_OR [ [W_startTime [Lt e, Gte s]],
            [W_endTime [Gt s, Lte e]] ]"

text \<open>The \<open>where\<close> object of POST / (line 240) and of PUT /:id (line 348).\<close>

definition create_where :: "int \<Rightarrow> int \<Rightarrow> where_key list" where
  "create_where s e = [conflict_OR s e]"

definition update_where :: "string \<Rightarrow> int \<Rightarrow> int \<Rightarrow> where_key list" where
  "update_where i s e = [W_id_not i, conflict_OR s e]"

text \<open>
  The value both handlers test with \<open>if (conflictingBooking)\<close>: the create path has no
  excluded identifier, the update path excludes the booking being updated.
\<close>

definition conflictingBooking :: "db \<Rightarrow> int \<Rightarrow> int \<Rightarrow> string option \<Rightarrow> booking option" where
  "conflictingBooking d s e excludeId =
     (case excludeId of
        None \<Rightarrow> findFirst d (create_where s e)
      | Some i \<Rightarrow> findFirst d (update_where i s e))"

section \<open>Writes: constraints of the migration\<close>

text \<open>
  A Prisma call that violates a constraint of the schema throws, and the handler's
  \<open>catch\<close> answers 500. The constraints of migration.sql that a booking write can violate:
  the primary key of \<open>bookings\<close>, the unique index on (bookingId, userId) and on
  (bookingId, serviceId), and the foreign keys of the join tables.
\<close>

datatype prisma_error = UniqueConstraint | ForeignKeyConstraint

text \<open>
  Inserting the rows \<open>(bookingId, userId)\<close> for each element of \<open>userIds\<close>, as one statement:
  the nested \<open>users: { create: userIds.map(...) }\<close> of POST and the
  \<open>bookingsOnUsers.createMany\<close> of PUT.
\<close>

definition insert_users :: "string \<Rightarrow> string list \<Rightarrow> db \<Rightarrow> prisma_error + db" where
  "insert_users bid userIds d =
     (let rows = map (\<lambda>u. \<lparr>bu_bookingId = bid, userId = u\<rparr>) userIds in
      if list_ex (\<lambda>r. r \<in> set (bookings_on_users d)) rows then Inl UniqueConstraint
      else if distinct userIds then
        (if bid \<in> set (map id_booking (bookings d)) \<and> list_all (\<lambda>u. u \<in> set (users d)) userIds
         then Inr (d\<lparr>bookings_on_users := bookings_on_users d @ rows\<rparr>)
         else Inl ForeignKeyConstraint)
      else Inl UniqueConstraint)"

definition insert_services :: "string \<Rightarrow> string list \<Rightarrow> db \<Rightarrow> prisma_error + db" where
  "insert_services bid serviceIds d =
     (let rows = map (\<lambda>s. \<lparr>bs_bookingId = bid, serviceId = s\<rparr>) serviceIds in
      if list_ex (\<lambda>r. r \<in> set (bookings_on_services d)) rows then Inl UniqueConstraint
      else if distinct serviceIds then
        (if bid \<in> set (map id_booking (bookings d)) \<and> list_all (\<lambda>s. s \<in> set (services d)) serviceIds
         then Inr (d\<lparr>bookings_on_services := bookings_on_services d @ rows\<rparr>)
         else Inl ForeignKeyConstraint)
      else Inl UniqueConstraint)"

section \<open>POST / (bookings.ts lines 221-314)\<close>

text \<open>
  The request body after \<open>validateRequest\<close>: both times are present and parsed,
  \<open>notes\<close> and \<open>status\<close> are optional.
\<close>

record create_body =
  c_startTime :: int
  c_endTime :: int
  c_userIds :: "string list"
  c_serviceIds :: "string list"
  c_notes :: "string option"
  c_status :: "BookingStatus option"

text \<open>
  A response is its HTTP status and its JSON body. The body of a success is the booking
  row (the included user and service objects are not modelled).
\<close>

datatype payload = Error_json string | Booking_json booking | Null_json

type_synonym response = "nat \<times> payload"

text \<open>
  \<open>prisma.booking.create\<close> with its nested creates (line 263): one transaction, so a
  violated constraint leaves the database as it was. The key of the new row is generated
  by Prisma; it is the parameter \<open>newId\<close>. \<open>status\<close> defaults to CONFIRMED (line 236).
\<close>

definition booking_data :: "string \<Rightarrow> create_body \<Rightarrow> booking" where
  "booking_data newId body =
     \<lparr>id_booking = newId,
      startTime = c_startTime body,
      endTime = c_endTime body,
      status = (case c_status body of None \<Rightarrow> CONFIRMED | Some s \<Rightarrow> s),
      notes_booking = c_notes body\<rparr>"

definition booking_create :: "string \<Rightarrow> create_body \<Rightarrow> db \<Rightarrow> prisma_error + (booking \<times> db)" where
  "booking_create newId body d =
     (if newId \<in> set (map id_booking (bookings d)) then Inl UniqueConstraint
      else
        (let b = booking_data newId body;
             d1 = d\<lparr>bookings := bookings d @ [b]\<rparr>
         in case insert_users newId (c_userIds body) d1 of
              Inl err \<Rightarrow> Inl err
            | Inr d2 \<Rightarrow>
                (case insert_services newId (c_serviceIds body) d2 of
                   Inl err \<Rightarrow> Inl err
                 | Inr d3 \<Rightarrow> Inr (b, d3))))"

definition post_bookings :: "string \<Rightarrow> create_body \<Rightarrow> db \<Rightarrow> response \<times> db" where
  "post_bookings newId body d =
     (case findFirst d (create_where (c_startTime body) (c_endTime body)) of
        Some conflicting \<Rightarrow>
          ((409, Error_json ''Time slot conflicts with existing booking''), d)
      | None \<Rightarrow>
          (case booking_create newId body d of
             Inl err \<Rightarrow> ((500, Error_json ''Failed to create booking''), d)
           | Inr (b, d') \<Rightarrow> ((201, Booking_json b), d')))"

section \<open>PUT /:id (bookings.ts lines 317-472)\<close>

text \<open>Every field of the body is optional; an absent field is \<open>None\<close>.\<close>

record update_body =
  u_startTime :: "int option"
  u_endTime :: "int option"
  u_userIds :: "string list option"
  u_serviceIds :: "string list option"
  u_notes :: "string option"
  u_status :: "BookingStatus option"

text \<open>Lines 346-370: the check runs only under \<open>if (startTime && endTime)\<close>.\<close>

definition update_conflict :: "string \<Rightarrow> update_body \<Rightarrow> db \<Rightarrow> booking option" where
  "update_conflict i body d =
     (case u_startTime body of
        None \<Rightarrow> None
      | Some s \<Rightarrow>
          (case u_endTime body of
             None \<Rightarrow> None
           | Some e \<Rightarrow> findFirst d (update_where i s e)))"

text \<open>Lines 373-377: \<open>updateData\<close> holds the fields that are present.\<close>

definition updateData :: "update_body \<Rightarrow> booking \<Rightarrow> booking" where
  "updateData body b =
     b\<lparr>startTime := (case u_startTime body of None \<Rightarrow> startTime b | Some s \<Rightarrow> s),
       endTime := (case u_endTime body of None \<Rightarrow> endTime b | Some e \<Rightarrow> e),
       notes_booking := (case u_notes body of None \<Rightarrow> notes_booking b | Some n \<Rightarrow> Some n),
       status := (case u_status body of None \<Rightarrow> status b | Some s \<Rightarrow> s)\<rparr>"

definition booking_update :: "string \<Rightarrow> update_body \<Rightarrow> db \<Rightarrow> db" where
  "booking_update i body d =
     d\<lparr>bookings := map (\<lambda>b. if id_booking b = i then updateData body b else b) (bookings d)\<rparr>"

text \<open>
  Lines 411-433: \<open>deleteMany\<close> then \<open>createMany\<close>, two statements. When \<open>createMany\<close>
  throws, the rows deleted before it stay deleted.
\<close>

definition replace_users :: "string \<Rightarrow> string list option \<Rightarrow> db \<Rightarrow> prisma_error option \<times> db" where
  "replace_users i userIds d =
     (case userIds of
        None \<Rightarrow> (None, d)
      | Some us \<Rightarrow>
          (let d1 = d\<lparr>bookings_on_users := filter (\<lambda>l. bu_bookingId l \<noteq> i) (bookings_on_users d)\<rparr>
           in case insert_users i us d1 of
                Inl err \<Rightarrow> (Some err, d1)
              | Inr d2 \<Rightarrow> (None, d2)))"

definition replace_services :: "string \<Rightarrow> string list option \<Rightarrow> db \<Rightarrow> prisma_error option \<times> db" where
  "replace_services i serviceIds d =
     (case serviceIds of
        None \<Rightarrow> (None, d)
      | Some ss \<Rightarrow>
          (let d1 = d\<lparr>bookings_on_services := filter (\<lambda>l. bs_bookingId l \<noteq> i) (bookings_on_services d)\<rparr>
           in case insert_services i ss d1 of
                Inl err \<Rightarrow> (Some err, d1)
              | Inr d2 \<Rightarrow> (None, d2)))"

definition put_bookings :: "string \<Rightarrow> update_body \<Rightarrow> db \<Rightarrow> response \<times> db" where
  "put_bookings i body d =
     (case findUnique d i of
        None \<Rightarrow> ((404, Error_json ''Booking not found''), d)
      | Some existingBooking \<Rightarrow>
          (case update_conflict i body d of
             Some conflicting \<Rightarrow>
               ((409, Error_json ''Time slot conflicts with existing booking''), d)
           | None \<Rightarrow>
               (case replace_users i (u_userIds body) (booking_update i body d) of
                  (Some err, d2) \<Rightarrow> ((500, Error_json ''Failed to update booking''), d2)
                | (None, d2) \<Rightarrow>
                    (case replace_services i (u_serviceIds body) d2 of
                       (Some err, d3) \<Rightarrow> ((500, Error_json ''Failed to update booking''), d3)
                     | (None, d3) \<Rightarrow>
                         ((200, case findUnique d3 i of
                                  None \<Rightarrow> Null_json
                                | Some updatedBooking \<Rightarrow> Booking_json updatedBooking), d3)))))"

section \<open>Two requests in flight\<close>

text \<open>
  POST / awaits two Prisma calls, \<open>findFirst\<close> (line 239) and \<open>create\<close> (line 263), with
  no transaction around them. A request in flight is at one of these calls or has
  responded; each call is one step on the database.
\<close>

datatype post_pc = Checking | Creating | Responded response

fun post_step :: "string \<Rightarrow> create_body \<Rightarrow> db \<Rightarrow> post_pc \<Rightarrow> db \<times> post_pc" where
  "post_step newId body d Checking =
     (case findFirst d (create_where (c_startTime body) (c_endTime body)) of
        Some conflicting \<Rightarrow>
          (d, Responded (409, Error_json ''Time slot conflicts with existing booking''))
      | None \<Rightarrow> (d, Creating))"
| "post_step newId body d Creating =
     (case booking_create newId body d of
        Inl err \<Rightarrow> (d, Responded (500, Error_json ''Failed to create booking''))
      | Inr (b, d') \<Rightarrow> (d', Responded (201, Booking_json b)))"
| "post_step newId body d (Responded r) = (d, Responded r)"

text \<open>
  Two requests and a schedule: the list says which request takes the next step.
\<close>

datatype turn = First | Second

fun run :: "string \<times> create_body \<Rightarrow> string \<times> create_body \<Rightarrow> turn list
    \<Rightarrow> db \<times> post_pc \<times> post_pc \<Rightarrow> db \<times> post_pc \<times> post_pc" where
  "run r1 r2 [] st = st"
| "run r1 r2 (First # ts) (d, p1, p2) =
     (case post_step (fst r1) (snd r1) d p1 of (d', p1') \<Rightarrow> run r1 r2 ts (d', p1', p2))"
| "run r1 r2 (Second # ts) (d, p1, p2) =
     (case post_step (fst r2) (snd r2) d p2 of (d', p2') \<Rightarrow> run r1 r2 ts (d', p1, p2'))"

section \<open>Vocabulary of the statements\<close>

text \<open>
  The conditions under which \<open>prisma.booking.create\<close> violates no constraint: the key is
  new, and the user and service ids are distinct, exist, and are not yet linked to it.
\<close>

definition create_accepted :: "string \<Rightarrow> create_body \<Rightarrow> db \<Rightarrow> bool" where
  "create_accepted newId body d =
     (newId \<notin> set (map id_booking (bookings d))
      \<and> distinct (c_userIds body)
      \<and> list_all (\<lambda>u. u \<in> set (users d)) (c_userIds body)
      \<and> list_all (\<lambda>u. \<lparr>bu_bookingId = newId, userId = u\<rparr> \<notin> set (bookings_on_users d))
           (c_userIds body)
      \<and> distinct (c_serviceIds body)
      \<and> list_all (\<lambda>s. s \<in> set (services d)) (c_serviceIds body)
      \<and> list_all (\<lambda>s. \<lparr>bs_bookingId = newId, serviceId = s\<rparr> \<notin> set (bookings_on_services d))
           (c_serviceIds body))"

text \<open>The database after an accepted create: the row and its link rows are appended.\<close>

definition created :: "string \<Rightarrow> create_body \<Rightarrow> db \<Rightarrow> db" where
  "created newId body d =
     d\<lparr>bookings := bookings d @ [booking_data newId body],
       bookings_on_users := bookings_on_users d
          @ map (\<lambda>u. \<lparr>bu_bookingId = newId, userId = u\<rparr>) (c_userIds body),
       bookings_on_services := bookings_on_services d
          @ map (\<lambda>s. \<lparr>bs_bookingId = newId, serviceId = s\<rparr>) (c_serviceIds body)\<rparr>"

text \<open>The same store with every booking's status replaced.\<close>

definition restatus :: "(booking \<Rightarrow> BookingStatus) \<Rightarrow> db \<Rightarrow> db" where
  "restatus f d = d\<lparr>bookings := map (\<lambda>b. b\<lparr>status := f b\<rparr>) (bookings d)\<rparr>"

section \<open>The overlap rule of the specification\<close>

text \<open>
  The specification's predicate: \<open>[S1,E1)\<close> and \<open>[S2,E2)\<close> overlap iff
  \<open>S1 < E2 AND S2 < E1\<close>; the checker answers true iff some stored interval, the
  excluded one apart, overlaps the candidate.
\<close>

definition spec_overlaps :: "int \<Rightarrow> int \<Rightarrow> int \<Rightarrow> int \<Rightarrow> bool" where
  "spec_overlaps s1 e1 s2 e2 = (s1 < e2 \<and> s2 < e1)"

definition spec_hasConflict :: "db \<Rightarrow> int \<Rightarrow> int \<Rightarrow> string option \<Rightarrow> bool" where
  "spec_hasConflict d s e excludeId =
     list_ex (\<lambda>b. Some (id_booking b) \<noteq> excludeId \<and> spec_overlaps s e (startTime b) (endTime b))
       (bookings d)"

text \<open>The condition of the source on one stored row, with the candidate \<open>[s, e)\<close>.\<close>

definition source_overlaps :: "int \<Rightarrow> int \<Rightarrow> int \<Rightarrow> int \<Rightarrow> bool" where
  "source_overlaps s e s2 e2 =
     matches \<lparr>users = [], services = [], bookings = [], bookings_on_users = [],
              bookings_on_services = []\<rparr>
       \<lparr>id_booking = [], startTime = s2, endTime = e2, status = CONFIRMED, notes_booking = None\<rparr>
       (conflict_OR s e)"

text \<open>Every stored interval has positive duration.\<close>

definition valid_store :: "db \<Rightarrow> bool" where
  "valid_store d = list_all (\<lambda>b. startTime b < endTime b) (bookings d)"

section \<open>Concrete stores and requests\<close>

text \<open>\<open>jan1 h m\<close> is \<open>new Date("2024-01-01Thh:mm:00Z").getTime()\<close>.\<close>

definition jan1 :: "int \<Rightarrow> int \<Rightarrow> int" where
  "jan1 h m = 1704067200000 + (h * 60 + m) * 60000"

definition mk_booking :: "string \<Rightarrow> int \<Rightarrow> int \<Rightarrow> BookingStatus \<Rightarrow> booking" where
  "mk_booking i s e st =
     \<lparr>id_booking = i, startTime = s, endTime = e, status = st, notes_booking = None\<rparr>"

text \<open>
  Two users, two services, and the bookings given; the booking \<open>b1\<close> (when present)
  is linked to user \<open>u1\<close> and service \<open>s1\<close>.
\<close>

definition mk_db :: "booking list \<Rightarrow> db" where
  "mk_db bs =
     \<lparr>users = [''u1'', ''u2''], services = [''s1'', ''s2''], bookings = bs,
      bookings_on_users =
        (if ''b1'' \<in> set (map id_booking bs) then [\<lparr>bu_bookingId = ''b1'', userId = ''u1''\<rparr>] else []),
      bookings_on_services =
        (if ''b1'' \<in> set (map id_booking bs) then [\<lparr>bs_bookingId = ''b1'', serviceId = ''s1''\<rparr>] else [])\<rparr>"

definition mk_create :: "int \<Rightarrow> int \<Rightarrow> string list \<Rightarrow> string list \<Rightarrow> create_body" where
  "mk_create s e us ss =
     \<lparr>c_startTime = s, c_endTime = e, c_userIds = us, c_serviceIds = ss,
      c_notes = None, c_status = None\<rparr>"

definition mk_update :: "int option \<Rightarrow> int option \<Rightarrow> update_body" where
  "mk_update s e =
     \<lparr>u_startTime = s, u_endTime = e, u_userIds = None, u_serviceIds = None,
      u_notes = None, u_status = None\<rparr>"

section \<open>Basic facts\<close>

lemma matches_conflict_OR:
  "matches d b (conflict_OR s e) =
     ((startTime b < e \<and> s \<le> startTime b) \<or> (s < endTime b \<and> endTime b \<le> e))"
  by (simp add: conflict_OR_def)

lemma source_overlaps_iff:
  "source_overlaps s e s2 e2 = ((s2 < e \<and> s \<le> s2) \<or> (s < e2 \<and> e2 \<le> e))"
  by (simp add: source_overlaps_def matches_conflict_OR)

lemma matches_where_create:
  "matches_where d (create_where s e) b = source_overlaps s e (startTime b) (endTime b)"
  by (simp add: matches_where_def create_where_def matches_conflict_OR source_overlaps_iff)

lemma matches_where_update:
  "matches_where d (update_where i s e) b =
     (id_booking b \<noteq> i \<and> source_overlaps s e (startTime b) (endTime b))"
  by (simp add: matches_where_def update_where_def matches_conflict_OR source_overlaps_iff)

lemma findFirst_None_iff:
  "(findFirst d w = None) = (\<not> list_ex (matches_where d w) (bookings d))"
  by (auto simp add: findFirst_def find_None_iff list_ex_iff)

lemma conflictingBooking_None_iff:
  "(conflictingBooking d s e x = None) =
     (\<not> list_ex (\<lambda>b. Some (id_booking b) \<noteq> x \<and> source_overlaps s e (startTime b) (endTime b))
          (bookings d))"
  by (cases x)
     (auto simp add: conflictingBooking_def findFirst_None_iff list_ex_iff
        matches_where_create matches_where_update)

text \<open>
  On a stored interval of positive duration the condition of the source is the
  specification's overlap minus one case: the stored interval reaching beyond the
  candidate on both sides.
\<close>

lemma source_overlaps_char:
  "s2 < e2 \<Longrightarrow>
     source_overlaps s e s2 e2 = (spec_overlaps s e s2 e2 \<and> \<not> (s2 < s \<and> e < e2))"
  by (auto simp add: source_overlaps_iff spec_overlaps_def)

lemma source_overlaps_sound:
  "s2 < e2 \<Longrightarrow> source_overlaps s e s2 e2 \<Longrightarrow> spec_overlaps s e s2 e2"
  by (simp add: source_overlaps_char)

lemma conflict_found_sound:
  assumes "valid_store d" and "conflictingBooking d s e x \<noteq> None"
  shows "spec_hasConflict d s e x"
proof -
  from assms(2) obtain b where b: "b \<in> set (bookings d)" "Some (id_booking b) \<noteq> x"
      "source_overlaps s e (startTime b) (endTime b)"
    by (auto simp add: conflictingBooking_None_iff list_ex_iff)
  from assms(1) b(1) have "startTime b < endTime b"
    by (simp add: valid_store_def list_all_iff)
  with b(3) have "spec_overlaps s e (startTime b) (endTime b)"
    by (simp add: source_overlaps_char)
  with b(1,2) show ?thesis
    by (auto simp add: spec_hasConflict_def list_ex_iff)
qed

lemma matches_where_create_fun:
  "matches_where d (create_where s e)
     = (\<lambda>b. source_overlaps s e (startTime b) (endTime b))"
  by (rule ext) (rule matches_where_create)

lemma matches_where_update_fun:
  "matches_where d (update_where i s e)
     = (\<lambda>b. id_booking b \<noteq> i \<and> source_overlaps s e (startTime b) (endTime b))"
  by (rule ext) (rule matches_where_update)

lemma conflictingBooking_find:
  "conflictingBooking d s e x =
     find (\<lambda>b. Some (id_booking b) \<noteq> x \<and> source_overlaps s e (startTime b) (endTime b))
       (bookings d)"
  by (cases x)
     (simp_all add: conflictingBooking_def findFirst_def matches_where_create_fun
        matches_where_update_fun)

lemma find_map_list:
  "find P (map f xs) = map_option f (find (\<lambda>x. P (f x)) xs)"
  by (induction xs) simp_all

lemma created_changes: "created newId body d \<noteq> d"
proof
  assume "created newId body d = d"
  then have "bookings (created newId body d) = bookings d" by simp
  then show False by (simp add: created_def)
qed

lemma put_409_iff:
  "(fst (fst (put_bookings i body d)) = 409)
     = (findUnique d i \<noteq> None \<and> update_conflict i body d \<noteq> None)"
  by (simp add: put_bookings_def split: option.splits prod.splits)

lemma put_bookings_unchecked:
  assumes "findUnique d i = Some b0" and "update_conflict i body d = None"
  shows "bookings (snd (put_bookings i body d)) = bookings (booking_update i body d)"
  using assms
  by (simp add: put_bookings_def replace_users_def replace_services_def insert_users_def
      insert_services_def Let_def split: option.splits prod.splits sum.splits)

lemma findUnique_booking_update:
  "findUnique (booking_update i body d) i = map_option (updateData body) (findUnique d i)"
proof -
  have "find (\<lambda>b. id_booking b = i)
          (map (\<lambda>b. if id_booking b = i then updateData body b else b) bs)
        = map_option (updateData body) (find (\<lambda>b. id_booking b = i) bs)" for bs
    by (induction bs) (simp_all add: updateData_def)
  then show ?thesis by (simp add: findUnique_def booking_update_def)
qed

section \<open>Claims\<close>

text \<open>
  C1. The claim: on every store of valid intervals the conflict check answers true iff
  some stored interval, the excluded one apart, satisfies \<open>S1 < E2 AND S2 < E1\<close>.
  The check of the source misses a stored booking that starts before the candidate and
  ends after it: with a booking from 09:00 to 12:00 stored, the candidate 10:00 to 11:00
  overlaps it by the specification's rule, yet the query finds no row and POST / answers
  201 and stores a second booking inside the first.
\<close>

theorem C1_enclosing_booking_not_found:
  "valid_store (mk_db [mk_booking ''b1'' (jan1 9 0) (jan1 12 0) CONFIRMED])
   \<and> jan1 10 0 < jan1 11 0
   \<and> spec_hasConflict (mk_db [mk_booking ''b1'' (jan1 9 0) (jan1 12 0) CONFIRMED])
        (jan1 10 0) (jan1 11 0) None
   \<and> conflictingBooking (mk_db [mk_booking ''b1'' (jan1 9 0) (jan1 12 0) CONFIRMED])
        (jan1 10 0) (jan1 11 0) None = None
   \<and> fst (post_bookings ''b2'' (mk_create (jan1 10 0) (jan1 11 0) [''u1''] [''s1''])
            (mk_db [mk_booking ''b1'' (jan1 9 0) (jan1 12 0) CONFIRMED]))
       = (201, Booking_json (mk_booking ''b2'' (jan1 10 0) (jan1 11 0) CONFIRMED))"
  by (simp add: valid_store_def spec_hasConflict_def spec_overlaps_def conflictingBooking_def
      findFirst_def matches_where_create source_overlaps_iff mk_db_def mk_booking_def jan1_def
      post_bookings_def booking_create_def booking_data_def insert_users_def insert_services_def
      mk_create_def Let_def)

text \<open>
  C2, as stated: for some store holding one interval and some candidate that starts
  before it and ends after it, the check of the source answers false. No such store and
  candidate exist.
\<close>

theorem C2_no_miss_when_candidate_contains:
  "\<not> (\<exists>d b s e. bookings d = [b] \<and> startTime b < endTime b \<and> s < e
         \<and> s < startTime b \<and> endTime b < e
         \<and> conflictingBooking d s e None = None)"
  by (auto simp add: conflictingBooking_None_iff source_overlaps_iff)

text \<open>
  C2, amended: whenever the candidate starts before the only stored interval and ends
  after it, the check of the source finds that interval (its start lies within the
  candidate), on the create path and on the update path unless it is the excluded row.
\<close>

theorem C2_candidate_containing_stored_is_found:
  assumes "bookings d = [b]" and "startTime b < endTime b"
    and "s < startTime b" and "endTime b < e" and "Some (id_booking b) \<noteq> x"
  shows "conflictingBooking d s e x = Some b"
proof -
  have "source_overlaps s e (startTime b) (endTime b)"
    using assms(2-4) by (simp add: source_overlaps_iff)
  then show ?thesis
    using assms(1,5)
    by (cases x)
       (simp_all add: conflictingBooking_def findFirst_def matches_where_create
          matches_where_update)
qed

theorem C2_candidate_containing_stored_is_found_witness:
  "conflictingBooking (mk_db [mk_booking ''b1'' (jan1 10 0) (jan1 11 0) CONFIRMED])
     (jan1 9 0) (jan1 12 0) None
   = Some (mk_booking ''b1'' (jan1 10 0) (jan1 11 0) CONFIRMED)"
  using C2_candidate_containing_stored_is_found
    [of "mk_db [mk_booking ''b1'' (jan1 10 0) (jan1 11 0) CONFIRMED]"
        "mk_booking ''b1'' (jan1 10 0) (jan1 11 0) CONFIRMED" "jan1 9 0" "jan1 12 0" None]
  by (simp add: mk_db_def mk_booking_def jan1_def)

text \<open>
  C3. The claim: the pairwise condition of the source gives the same answer with
  candidate and stored interval swapped. With A from 10:00 to 11:00 and B from 09:00 to
  12:00 it does not: A as candidate against B stored is no conflict, B as candidate
  against A stored is one.
\<close>

theorem C3_not_symmetric_on_enclosure:
  "jan1 10 0 < jan1 11 0 \<and> jan1 9 0 < jan1 12 0
   \<and> source_overlaps (jan1 10 0) (jan1 11 0) (jan1 9 0) (jan1 12 0) = False
   \<and> source_overlaps (jan1 9 0) (jan1 12 0) (jan1 10 0) (jan1 11 0) = True
   \<and> spec_overlaps (jan1 10 0) (jan1 11 0) (jan1 9 0) (jan1 12 0)
   \<and> spec_overlaps (jan1 9 0) (jan1 12 0) (jan1 10 0) (jan1 11 0)"
  by (simp add: source_overlaps_iff spec_overlaps_def jan1_def)

text \<open>
  C4. When every stored row that satisfies the overlap condition against the candidate
  is the row named by \<open>excludeId\<close>, the check of the update path finds nothing. The
  overlap condition may be read as the one of the source, or as the specification's
  \<open>S1 < E2 AND S2 < E1\<close> on a store of valid intervals.
\<close>

theorem C4_excluded_booking_ignored:
  assumes "(\<forall>b \<in> set (bookings d).
              source_overlaps s e (startTime b) (endTime b) \<longrightarrow> id_booking b = i)
           \<or> (valid_store d \<and>
               (\<forall>b \<in> set (bookings d).
                  spec_overlaps s e (startTime b) (endTime b) \<longrightarrow> id_booking b = i))"
  shows "conflictingBooking d s e (Some i) = None
         \<and> update_conflict i (mk_update (Some s) (Some e)) d = None"
proof -
  have only: "\<forall>b \<in> set (bookings d).
      source_overlaps s e (startTime b) (endTime b) \<longrightarrow> id_booking b = i"
    using assms
    by (auto simp add: valid_store_def list_all_iff source_overlaps_char)
  then have c: "conflictingBooking d s e (Some i) = None"
    by (auto simp add: conflictingBooking_None_iff list_ex_iff)
  then have "update_conflict i (mk_update (Some s) (Some e)) d = None"
    by (simp add: update_conflict_def mk_update_def conflictingBooking_def)
  with c show ?thesis by simp
qed

theorem C4_excluded_booking_ignored_witness:
  "conflictingBooking (mk_db [mk_booking ''b1'' (jan1 9 0) (jan1 10 0) CONFIRMED])
     (jan1 9 15) (jan1 10 15) (Some ''b1'') = None
   \<and> conflictingBooking (mk_db [mk_booking ''b1'' (jan1 9 0) (jan1 10 0) CONFIRMED])
       (jan1 9 15) (jan1 10 15) None \<noteq> None
   \<and> fst (put_bookings ''b1'' (mk_update (Some (jan1 9 15)) (Some (jan1 10 15)))
            (mk_db [mk_booking ''b1'' (jan1 9 0) (jan1 10 0) CONFIRMED]))
       = (200, Booking_json (mk_booking ''b1'' (jan1 9 15) (jan1 10 15) CONFIRMED))"
proof -
  let ?d = "mk_db [mk_booking ''b1'' (jan1 9 0) (jan1 10 0) CONFIRMED]"
  have h: "(\<forall>b \<in> set (bookings ?d).
              source_overlaps (jan1 9 15) (jan1 10 15) (startTime b) (endTime b)
                \<longrightarrow> id_booking b = ''b1'')
           \<or> (valid_store ?d \<and>
               (\<forall>b \<in> set (bookings ?d).
                  spec_overlaps (jan1 9 15) (jan1 10 15) (startTime b) (endTime b)
                    \<longrightarrow> id_booking b = ''b1''))"
    by (simp add: mk_db_def mk_booking_def)
  note c = C4_excluded_booking_ignored [OF h]
  have "conflictingBooking ?d (jan1 9 15) (jan1 10 15) None \<noteq> None"
    by (simp add: conflictingBooking_None_iff source_overlaps_iff mk_db_def mk_booking_def
        jan1_def)
  moreover have "fst (put_bookings ''b1'' (mk_update (Some (jan1 9 15)) (Some (jan1 10 15))) ?d)
       = (200, Booking_json (mk_booking ''b1'' (jan1 9 15) (jan1 10 15) CONFIRMED))"
    using c
    by (simp add: put_bookings_def findUnique_def mk_db_def mk_booking_def mk_update_def
        booking_update_def updateData_def replace_users_def replace_services_def)
  ultimately show ?thesis
    using c by simp
qed

text \<open>
  C5. A candidate that only touches the stored interval at a boundary (its end is the
  stored start, or its start is the stored end) is no conflict, on either path.
\<close>

theorem C5_adjacent_no_conflict:
  assumes "bookings d = [b]" and "startTime b < endTime b"
    and "e = startTime b \<or> s = endTime b"
  shows "conflictingBooking d s e x = None"
  using assms
  by (auto simp add: conflictingBooking_None_iff source_overlaps_iff)

theorem C5_adjacent_no_conflict_witness:
  "conflictingBooking (mk_db [mk_booking ''b1'' (jan1 9 0) (jan1 10 0) CONFIRMED])
     (jan1 10 0) (jan1 11 0) None = None
   \<and> conflictingBooking (mk_db [mk_booking ''b1'' (jan1 9 0) (jan1 10 0) CONFIRMED])
       (jan1 8 0) (jan1 9 0) None = None"
  using C5_adjacent_no_conflict
      [of "mk_db [mk_booking ''b1'' (jan1 9 0) (jan1 10 0) CONFIRMED]"
          "mk_booking ''b1'' (jan1 9 0) (jan1 10 0) CONFIRMED" "jan1 11 0" "jan1 10 0" None]
    C5_adjacent_no_conflict
      [of "mk_db [mk_booking ''b1'' (jan1 9 0) (jan1 10 0) CONFIRMED]"
          "mk_booking ''b1'' (jan1 9 0) (jan1 10 0) CONFIRMED" "jan1 9 0" "jan1 8 0" None]
  by (simp add: mk_db_def mk_booking_def jan1_def)

lemma booking_data_sel:
  "id_booking (booking_data newId body) = newId"
  "startTime (booking_data newId body) = c_startTime body"
  "endTime (booking_data newId body) = c_endTime body"
  by (simp_all add: booking_data_def)

lemma booking_create_accepted:
  "create_accepted newId body d \<Longrightarrow>
     booking_create newId body d = Inr (booking_data newId body, created newId body d)"
  by (auto simp add: create_accepted_def booking_create_def insert_users_def insert_services_def
      created_def Let_def list_ex_iff list_all_iff booking_data_sel)

lemma booking_create_rejected:
  "\<not> create_accepted newId body d \<Longrightarrow> \<exists>err. booking_create newId body d = Inl err"
  by (auto simp add: create_accepted_def booking_create_def insert_users_def insert_services_def
      Let_def list_ex_iff list_all_iff booking_data_sel)

text \<open>
  C6, as stated: POST / stores a new booking iff its conflict check finds nothing. On an
  empty store the check finds nothing, yet a request naming a user that does not exist
  is answered 500 and nothing is stored: the create violates a foreign key and throws.
\<close>

theorem C6_no_conflict_yet_nothing_stored:
  "conflictingBooking (mk_db []) (jan1 9 0) (jan1 10 0) None = None
   \<and> post_bookings ''b1'' (mk_create (jan1 9 0) (jan1 10 0) [''u9''] [''s1'']) (mk_db [])
       = ((500, Error_json ''Failed to create booking''), mk_db [])"
  by (simp add: conflictingBooking_def findFirst_def mk_db_def mk_create_def post_bookings_def
      booking_create_def booking_data_def insert_users_def insert_services_def Let_def)

text \<open>
  C6, amended: a found conflict is answered 409 and the database is unchanged; with no
  conflict the handler runs the create, which stores the booking with its user and
  service links and is answered 201 when no constraint is violated, and is answered 500
  with the database unchanged otherwise. So the database changes iff the check finds
  nothing and the create is accepted.
\<close>

theorem C6_post_persists_iff_no_conflict_and_accepted:
  "(conflictingBooking d (c_startTime body) (c_endTime body) None \<noteq> None \<longrightarrow>
      post_bookings newId body d
        = ((409, Error_json ''Time slot conflicts with existing booking''), d))
   \<and> (conflictingBooking d (c_startTime body) (c_endTime body) None = None
        \<and> create_accepted newId body d \<longrightarrow>
      post_bookings newId body d
        = ((201, Booking_json (booking_data newId body)), created newId body d))
   \<and> (conflictingBooking d (c_startTime body) (c_endTime body) None = None
        \<and> \<not> create_accepted newId body d \<longrightarrow>
      post_bookings newId body d = ((500, Error_json ''Failed to create booking''), d))
   \<and> ((snd (post_bookings newId body d) \<noteq> d)
        = (conflictingBooking d (c_startTime body) (c_endTime body) None = None
           \<and> create_accepted newId body d))"
proof -
  let ?c = "conflictingBooking d (c_startTime body) (c_endTime body) None"
  have c: "findFirst d (create_where (c_startTime body) (c_endTime body)) = ?c"
    by (simp add: conflictingBooking_def)
  have found: "post_bookings newId body d
        = ((409, Error_json ''Time slot conflicts with existing booking''), d)"
    if "?c \<noteq> None"
    using that by (auto simp add: post_bookings_def c)
  have stored: "post_bookings newId body d
        = ((201, Booking_json (booking_data newId body)), created newId body d)"
    if "?c = None" and "create_accepted newId body d"
    using that by (simp add: post_bookings_def c booking_create_accepted)
  have thrown: "post_bookings newId body d = ((500, Error_json ''Failed to create booking''), d)"
    if "?c = None" and "\<not> create_accepted newId body d"
  proof -
    from that(2) obtain err where "booking_create newId body d = Inl err"
      using booking_create_rejected by blast
    with that(1) show ?thesis by (simp add: post_bookings_def c)
  qed
  have changed: "(snd (post_bookings newId body d) \<noteq> d)
        = (?c = None \<and> create_accepted newId body d)"
  proof (cases "?c = None")
    case False
    with found show ?thesis by simp
  next
    case True
    show ?thesis
    proof (cases "create_accepted newId body d")
      case True
      with \<open>?c = None\<close> stored show ?thesis by (simp add: created_changes)
    next
      case False
      with \<open>?c = None\<close> thrown show ?thesis by simp
    qed
  qed
  from found stored thrown changed show ?thesis by blast
qed

theorem C6_post_persists_iff_no_conflict_and_accepted_witness:
  "post_bookings ''b2'' (mk_create (jan1 9 30) (jan1 10 30) [''u1''] [''s1''])
       (mk_db [mk_booking ''b1'' (jan1 9 0) (jan1 10 0) CONFIRMED])
     = ((409, Error_json ''Time slot conflicts with existing booking''),
        mk_db [mk_booking ''b1'' (jan1 9 0) (jan1 10 0) CONFIRMED])
   \<and> post_bookings ''b2'' (mk_create (jan1 10 0) (jan1 11 0) [''u1''] [''s1''])
       (mk_db [mk_booking ''b1'' (jan1 9 0) (jan1 10 0) CONFIRMED])
     = ((201, Booking_json (mk_booking ''b2'' (jan1 10 0) (jan1 11 0) CONFIRMED)),
        \<lparr>users = [''u1'', ''u2''], services = [''s1'', ''s2''],
         bookings = [mk_booking ''b1'' (jan1 9 0) (jan1 10 0) CONFIRMED,
                     mk_booking ''b2'' (jan1 10 0) (jan1 11 0) CONFIRMED],
         bookings_on_users = [\<lparr>bu_bookingId = ''b1'', userId = ''u1''\<rparr>,
                              \<lparr>bu_bookingId = ''b2'', userId = ''u1''\<rparr>],
         bookings_on_services = [\<lparr>bs_bookingId = ''b1'', serviceId = ''s1''\<rparr>,
                                 \<lparr>bs_bookingId = ''b2'', serviceId = ''s1''\<rparr>]\<rparr>)
   \<and> post_bookings ''b2'' (mk_create (jan1 10 0) (jan1 11 0) [''u1'', ''u1''] [''s1''])
       (mk_db [mk_booking ''b1'' (jan1 9 0) (jan1 10 0) CONFIRMED])
     = ((500, Error_json ''Failed to create booking''),
        mk_db [mk_booking ''b1'' (jan1 9 0) (jan1 10 0) CONFIRMED])"
  using
    C6_post_persists_iff_no_conflict_and_accepted
      [of "mk_db [mk_booking ''b1'' (jan1 9 0) (jan1 10 0) CONFIRMED]"
          "mk_create (jan1 9 30) (jan1 10 30) [''u1''] [''s1'']" "''b2''"]
    C6_post_persists_iff_no_conflict_and_accepted
      [of "mk_db [mk_booking ''b1'' (jan1 9 0) (jan1 10 0) CONFIRMED]"
          "mk_create (jan1 10 0) (jan1 11 0) [''u1''] [''s1'']" "''b2''"]
    C6_post_persists_iff_no_conflict_and_accepted
      [of "mk_db [mk_booking ''b1'' (jan1 9 0) (jan1 10 0) CONFIRMED]"
          "mk_create (jan1 10 0) (jan1 11 0) [''u1'', ''u1''] [''s1'']" "''b2''"]
  by (simp add: conflictingBooking_None_iff source_overlaps_iff create_accepted_def created_def
      booking_data_def mk_db_def mk_create_def mk_booking_def jan1_def)

text \<open>
  C7. The conflict check reads table \<open>bookings\<close> only: two databases with the same
  booking rows give the same result, whatever users, services and links they hold.
\<close>

theorem C7_check_ignores_users_and_services:
  assumes "bookings d = bookings d'"
  shows "conflictingBooking d s e x = conflictingBooking d' s e x"
  using assms by (simp add: conflictingBooking_find)

theorem C7_check_ignores_users_and_services_witness:
  "conflictingBooking (mk_db [mk_booking ''b1'' (jan1 9 0) (jan1 10 0) CONFIRMED])
       (jan1 9 30) (jan1 10 30) None
     = conflictingBooking
         \<lparr>users = [], services = [],
          bookings = [mk_booking ''b1'' (jan1 9 0) (jan1 10 0) CONFIRMED],
          bookings_on_users = [], bookings_on_services = []\<rparr>
         (jan1 9 30) (jan1 10 30) None
   \<and> fst (post_bookings ''b2'' (mk_create (jan1 9 30) (jan1 10 30) [''u2''] [''s2''])
            (mk_db [mk_booking ''b1'' (jan1 9 0) (jan1 10 0) CONFIRMED]))
       = (409, Error_json ''Time slot conflicts with existing booking'')"
proof -
  have "fst (post_bookings ''b2'' (mk_create (jan1 9 30) (jan1 10 30) [''u2''] [''s2''])
            (mk_db [mk_booking ''b1'' (jan1 9 0) (jan1 10 0) CONFIRMED]))
       = (409, Error_json ''Time slot conflicts with existing booking'')"
    by (simp add: post_bookings_def findFirst_def matches_where_create source_overlaps_iff
        mk_db_def mk_create_def mk_booking_def jan1_def)
  then show ?thesis
    using C7_check_ignores_users_and_services
      [of "mk_db [mk_booking ''b1'' (jan1 9 0) (jan1 10 0) CONFIRMED]"
          "\<lparr>users = [], services = [],
            bookings = [mk_booking ''b1'' (jan1 9 0) (jan1 10 0) CONFIRMED],
            bookings_on_users = [], bookings_on_services = []\<rparr>"
          "jan1 9 30" "jan1 10 30" None]
    by (simp add: mk_db_def)
qed

text \<open>
  C8. An update that supplies exactly one of \<open>startTime\<close> and \<open>endTime\<close> runs no
  conflict query and is never answered 409; when the booking exists it is left stored
  with the supplied time in place of the old one (also when the response is 500).
\<close>

theorem C8_single_time_update_unchecked:
  assumes "(u_startTime body = None) \<noteq> (u_endTime body = None)"
  shows "update_conflict i body d = None
       \<and> fst (fst (put_bookings i body d)) \<noteq> 409
       \<and> (\<forall>b0. findUnique d i = Some b0 \<longrightarrow>
             findUnique (snd (put_bookings i body d)) i = Some (updateData body b0)
             \<and> startTime (updateData body b0)
                 = (case u_startTime body of None \<Rightarrow> startTime b0 | Some t \<Rightarrow> t)
             \<and> endTime (updateData body b0)
                 = (case u_endTime body of None \<Rightarrow> endTime b0 | Some t \<Rightarrow> t))"
proof -
  have nocheck: "update_conflict i body d = None"
    using assms by (auto simp add: update_conflict_def split: option.splits)
  then have no409: "fst (fst (put_bookings i body d)) \<noteq> 409"
    by (simp add: put_409_iff)
  have stored: "findUnique (snd (put_bookings i body d)) i = Some (updateData body b0)"
    if ex: "findUnique d i = Some b0" for b0
  proof -
    have "bookings (snd (put_bookings i body d)) = bookings (booking_update i body d)"
      using ex nocheck by (rule put_bookings_unchecked)
    then have "findUnique (snd (put_bookings i body d)) i
        = findUnique (booking_update i body d) i"
      by (simp add: findUnique_def)
    with ex show ?thesis by (simp add: findUnique_booking_update)
  qed
  have times: "startTime (updateData body b0)
           = (case u_startTime body of None \<Rightarrow> startTime b0 | Some t \<Rightarrow> t)"
      "endTime (updateData body b0)
           = (case u_endTime body of None \<Rightarrow> endTime b0 | Some t \<Rightarrow> t)" for b0
    by (simp_all add: updateData_def)
  from nocheck no409 stored times show ?thesis by simp
qed

theorem C8_single_time_update_unchecked_witness:
  "fst (fst (put_bookings ''b2'' (mk_update (Some (jan1 9 30)) None)
          (mk_db [mk_booking ''b1'' (jan1 9 0) (jan1 10 0) CONFIRMED,
                  mk_booking ''b2'' (jan1 10 0) (jan1 11 0) CONFIRMED]))) \<noteq> 409
   \<and> findUnique (snd (put_bookings ''b2'' (mk_update (Some (jan1 9 30)) None)
          (mk_db [mk_booking ''b1'' (jan1 9 0) (jan1 10 0) CONFIRMED,
                  mk_booking ''b2'' (jan1 10 0) (jan1 11 0) CONFIRMED]))) ''b2''
       = Some (mk_booking ''b2'' (jan1 9 30) (jan1 11 0) CONFIRMED)
   \<and> spec_overlaps (jan1 9 30) (jan1 11 0) (jan1 9 0) (jan1 10 0)
   \<and> conflictingBooking
        (mk_db [mk_booking ''b1'' (jan1 9 0) (jan1 10 0) CONFIRMED,
                mk_booking ''b2'' (jan1 10 0) (jan1 11 0) CONFIRMED])
        (jan1 9 30) (jan1 11 0) (Some ''b2'')
       = Some (mk_booking ''b1'' (jan1 9 0) (jan1 10 0) CONFIRMED)"
proof -
  let ?d = "mk_db [mk_booking ''b1'' (jan1 9 0) (jan1 10 0) CONFIRMED,
                   mk_booking ''b2'' (jan1 10 0) (jan1 11 0) CONFIRMED]"
  let ?body = "mk_update (Some (jan1 9 30)) None"
  have ex: "findUnique ?d ''b2'' = Some (mk_booking ''b2'' (jan1 10 0) (jan1 11 0) CONFIRMED)"
    by (simp add: findUnique_def mk_db_def mk_booking_def)
  have one: "(u_startTime ?body = None) \<noteq> (u_endTime ?body = None)"
    by (simp add: mk_update_def)
  have upd: "updateData ?body (mk_booking ''b2'' (jan1 10 0) (jan1 11 0) CONFIRMED)
      = mk_booking ''b2'' (jan1 9 30) (jan1 11 0) CONFIRMED"
    by (simp add: updateData_def mk_update_def mk_booking_def)
  have late: "spec_overlaps (jan1 9 30) (jan1 11 0) (jan1 9 0) (jan1 10 0)"
    by (simp add: spec_overlaps_def jan1_def)
  have flagged: "conflictingBooking ?d (jan1 9 30) (jan1 11 0) (Some ''b2'')
       = Some (mk_booking ''b1'' (jan1 9 0) (jan1 10 0) CONFIRMED)"
    by (simp add: conflictingBooking_find source_overlaps_iff mk_db_def mk_booking_def jan1_def)
  from C8_single_time_update_unchecked [OF one, of "''b2''" ?d] ex upd late flagged
  show ?thesis by simp
qed

text \<open>
  C9. Neither check looks at the status of a stored booking. A stored row of any status
  that meets the condition of the query against the candidate makes POST / answer 409,
  and makes PUT /:id answer 409 for any other existing booking moved onto it, with the
  database unchanged; this stays so when every stored status is replaced by any other
  (CANCELLED, COMPLETED, NO_SHOW or CONFIRMED alike). Replacing the statuses changes
  neither whether a check finds a row, nor the response of POST /, nor whether PUT /:id
  answers 409.
\<close>

theorem C9_check_ignores_status:
  "(b \<in> set (bookings d)
      \<and> source_overlaps (c_startTime body) (c_endTime body) (startTime b) (endTime b) \<longrightarrow>
      post_bookings newId body d
        = ((409, Error_json ''Time slot conflicts with existing booking''), d)
      \<and> post_bookings newId body (restatus f d)
        = ((409, Error_json ''Time slot conflicts with existing booking''), restatus f d))
   \<and> (b \<in> set (bookings d) \<and> findUnique d i \<noteq> None \<and> id_booking b \<noteq> i
      \<and> u_startTime ubody = Some s \<and> u_endTime ubody = Some e
      \<and> source_overlaps s e (startTime b) (endTime b) \<longrightarrow>
      put_bookings i ubody d
        = ((409, Error_json ''Time slot conflicts with existing booking''), d)
      \<and> put_bookings i ubody (restatus f d)
        = ((409, Error_json ''Time slot conflicts with existing booking''), restatus f d))
   \<and> (conflictingBooking (restatus f d) s e x = None) = (conflictingBooking d s e x = None)
   \<and> fst (post_bookings newId body (restatus f d)) = fst (post_bookings newId body d)
   \<and> (fst (fst (put_bookings i ubody (restatus f d))) = 409)
       = (fst (fst (put_bookings i ubody d)) = 409)"
proof -
  let ?msg = "Error_json ''Time slot conflicts with existing booking''"
  have none: "(conflictingBooking (restatus f d) s e x = None)
     = (conflictingBooking d s e x = None)" for s e x
    by (simp add: conflictingBooking_find restatus_def find_map_list)
  have post_found: "post_bookings newId body d' = ((409, ?msg), d')"
    if "conflictingBooking d' (c_startTime body) (c_endTime body) None \<noteq> None" for d'
    using that by (auto simp add: post_bookings_def conflictingBooking_def)
  have uniq: "(findUnique (restatus f d) i = None) = (findUnique d i = None)"
    by (simp add: findUnique_def restatus_def find_map_list)
  have put_found: "put_bookings i ubody d' = ((409, ?msg), d')"
    if "findUnique d' i \<noteq> None" and "u_startTime ubody = Some s"
      and "u_endTime ubody = Some e" and "conflictingBooking d' s e (Some i) \<noteq> None" for d'
    using that
    by (auto simp add: put_bookings_def update_conflict_def conflictingBooking_def)
  have hit: "conflictingBooking d s e x \<noteq> None"
    if "b \<in> set (bookings d)" and "Some (id_booking b) \<noteq> x"
      and "source_overlaps s e (startTime b) (endTime b)" for s e x
    using that by (auto simp add: conflictingBooking_None_iff list_ex_iff)
  have post409: "post_bookings newId body d = ((409, ?msg), d)
      \<and> post_bookings newId body (restatus f d) = ((409, ?msg), restatus f d)"
    if "b \<in> set (bookings d)"
      and "source_overlaps (c_startTime body) (c_endTime body) (startTime b) (endTime b)"
  proof -
    have "conflictingBooking d (c_startTime body) (c_endTime body) None \<noteq> None"
      using that by (simp add: hit)
    moreover from this
    have "conflictingBooking (restatus f d) (c_startTime body) (c_endTime body) None \<noteq> None"
      by (simp add: none)
    ultimately show ?thesis by (simp add: post_found)
  qed
  have put409: "put_bookings i ubody d = ((409, ?msg), d)
      \<and> put_bookings i ubody (restatus f d) = ((409, ?msg), restatus f d)"
    if "b \<in> set (bookings d)" and "findUnique d i \<noteq> None" and "id_booking b \<noteq> i"
      and "u_startTime ubody = Some s" and "u_endTime ubody = Some e"
      and "source_overlaps s e (startTime b) (endTime b)"
  proof -
    have c: "conflictingBooking d s e (Some i) \<noteq> None"
      using that(1,3,6) by (simp add: hit)
    then have c': "conflictingBooking (restatus f d) s e (Some i) \<noteq> None"
      by (simp add: none)
    from that(2) have u': "findUnique (restatus f d) i \<noteq> None"
      by (simp add: uniq)
    from put_found [OF that(2,4,5) c] put_found [OF u' that(4,5) c']
    show ?thesis by simp
  qed
  have acc: "create_accepted newId body (restatus f d) = create_accepted newId body d"
    by (simp add: create_accepted_def restatus_def comp_def)
  let ?c = "\<lambda>d. conflictingBooking d (c_startTime body) (c_endTime body) None"
  have post: "fst (post_bookings newId body (restatus f d)) = fst (post_bookings newId body d)"
  proof (cases "?c d = None")
    case False
    moreover from False have "?c (restatus f d) \<noteq> None" by (simp add: none)
    ultimately show ?thesis by (simp add: post_found)
  next
    case True
    then have r: "?c (restatus f d) = None" by (simp add: none)
    show ?thesis
    proof (cases "create_accepted newId body d")
      case True
      with acc \<open>?c d = None\<close> r show ?thesis
        by (simp add: post_bookings_def conflictingBooking_def booking_create_accepted)
    next
      case False
      then obtain err where "booking_create newId body d = Inl err"
        using booking_create_rejected by blast
      moreover from False acc obtain err' where
        "booking_create newId body (restatus f d) = Inl err'"
        using booking_create_rejected by blast
      ultimately show ?thesis
        using \<open>?c d = None\<close> r by (simp add: post_bookings_def conflictingBooking_def)
    qed
  qed
  have upd: "(update_conflict i ubody (restatus f d) = None) = (update_conflict i ubody d = None)"
    using none [of _ _ "Some i"]
    by (simp add: update_conflict_def conflictingBooking_def split: option.splits)
  have put: "(fst (fst (put_bookings i ubody (restatus f d))) = 409)
       = (fst (fst (put_bookings i ubody d)) = 409)"
    by (simp add: put_409_iff uniq upd)
  from post409 put409 none [of s e x] post put show ?thesis by blast
qed

text \<open>
  A row from 09:00 to 10:00 with status CANCELLED, COMPLETED or NO_SHOW rejects the
  candidate 09:30 to 10:30 on POST /, and a CANCELLED row rejects moving another booking
  onto it on PUT /:id.
\<close>

theorem C9_check_ignores_status_witness:
  "post_bookings ''b2'' (mk_create (jan1 9 30) (jan1 10 30) [''u1''] [''s1''])
       (mk_db [mk_booking ''b1'' (jan1 9 0) (jan1 10 0) CANCELLED])
     = ((409, Error_json ''Time slot conflicts with existing booking''),
        mk_db [mk_booking ''b1'' (jan1 9 0) (jan1 10 0) CANCELLED])
   \<and> post_bookings ''b2'' (mk_create (jan1 9 30) (jan1 10 30) [''u1''] [''s1''])
       (mk_db [mk_booking ''b1'' (jan1 9 0) (jan1 10 0) COMPLETED])
     = ((409, Error_json ''Time slot conflicts with existing booking''),
        mk_db [mk_booking ''b1'' (jan1 9 0) (jan1 10 0) COMPLETED])
   \<and> post_bookings ''b2'' (mk_create (jan1 9 30) (jan1 10 30) [''u1''] [''s1''])
       (mk_db [mk_booking ''b1'' (jan1 9 0) (jan1 10 0) NO_SHOW])
     = ((409, Error_json ''Time slot conflicts with existing booking''),
        mk_db [mk_booking ''b1'' (jan1 9 0) (jan1 10 0) NO_SHOW])
   \<and> put_bookings ''b2'' (mk_update (Some (jan1 9 30)) (Some (jan1 10 30)))
       (mk_db [mk_booking ''b1'' (jan1 9 0) (jan1 10 0) CANCELLED,
               mk_booking ''b2'' (jan1 11 0) (jan1 12 0) CONFIRMED])
     = ((409, Error_json ''Time slot conflicts with existing booking''),
        mk_db [mk_booking ''b1'' (jan1 9 0) (jan1 10 0) CANCELLED,
               mk_booking ''b2'' (jan1 11 0) (jan1 12 0) CONFIRMED])"
proof -
  let ?body = "mk_create (jan1 9 30) (jan1 10 30) [''u1''] [''s1'']"
  let ?ubody = "mk_update (Some (jan1 9 30)) (Some (jan1 10 30))"
  let ?d2 = "mk_db [mk_booking ''b1'' (jan1 9 0) (jan1 10 0) CANCELLED,
                    mk_booking ''b2'' (jan1 11 0) (jan1 12 0) CONFIRMED]"
  have row: "mk_booking ''b1'' (jan1 9 0) (jan1 10 0) st
      \<in> set (bookings (mk_db [mk_booking ''b1'' (jan1 9 0) (jan1 10 0) st]))" for st
    by (simp add: mk_db_def)
  have over: "source_overlaps (c_startTime ?body) (c_endTime ?body)
      (startTime (mk_booking ''b1'' (jan1 9 0) (jan1 10 0) st))
      (endTime (mk_booking ''b1'' (jan1 9 0) (jan1 10 0) st))" for st
    by (simp add: source_overlaps_iff mk_create_def mk_booking_def jan1_def)
  have p: "post_bookings ''b2'' ?body (mk_db [mk_booking ''b1'' (jan1 9 0) (jan1 10 0) st])
     = ((409, Error_json ''Time slot conflicts with existing booking''),
        mk_db [mk_booking ''b1'' (jan1 9 0) (jan1 10 0) st])" for st
    using C9_check_ignores_status
      [of "mk_booking ''b1'' (jan1 9 0) (jan1 10 0) st"
          "mk_db [mk_booking ''b1'' (jan1 9 0) (jan1 10 0) st]" ?body "''b2''"]
      row [of st] over [of st]
    by blast
  have row2: "mk_booking ''b1'' (jan1 9 0) (jan1 10 0) CANCELLED \<in> set (bookings ?d2)"
    by (simp add: mk_db_def)
  have ex2: "findUnique ?d2 ''b2'' \<noteq> None"
    by (simp add: findUnique_def mk_db_def mk_booking_def)
  have other: "id_booking (mk_booking ''b1'' (jan1 9 0) (jan1 10 0) CANCELLED) \<noteq> ''b2''"
    by (simp add: mk_booking_def)
  have times: "u_startTime ?ubody = Some (jan1 9 30)" "u_endTime ?ubody = Some (jan1 10 30)"
    by (simp_all add: mk_update_def)
  have over2: "source_overlaps (jan1 9 30) (jan1 10 30)
      (startTime (mk_booking ''b1'' (jan1 9 0) (jan1 10 0) CANCELLED))
      (endTime (mk_booking ''b1'' (jan1 9 0) (jan1 10 0) CANCELLED))"
    by (simp add: source_overlaps_iff mk_booking_def jan1_def)
  have q: "put_bookings ''b2'' ?ubody ?d2
     = ((409, Error_json ''Time slot conflicts with existing booking''), ?d2)"
    using C9_check_ignores_status
      [of "mk_booking ''b1'' (jan1 9 0) (jan1 10 0) CANCELLED" ?d2 _ _ _ "''b2''" ?ubody
          "jan1 9 30" "jan1 10 30"]
      row2 ex2 other times over2
    by blast
  from p [of CANCELLED] p [of COMPLETED] p [of NO_SHOW] q show ?thesis by simp
qed

text \<open>
  The handler is its two steps run one after the other; and when the two requests are
  served one after the other, the second sees the first one's booking.
\<close>

lemma post_bookings_steps:
  "run (n1, b1) r2 [First, First] (d, Checking, p2)
     = (snd (post_bookings n1 b1 d), Responded (fst (post_bookings n1 b1 d)), p2)"
  by (simp add: post_bookings_def split: option.splits sum.splits prod.splits)

lemma create_accepted_created:
  assumes "create_accepted n2 b2 d" and "n1 \<noteq> n2"
  shows "create_accepted n2 b2 (created n1 b1 d)"
  using assms
  by (auto simp add: create_accepted_def created_def list_all_iff booking_data_sel)

lemma serial_second_rejected:
  assumes "conflictingBooking d (c_startTime b1) (c_endTime b1) None = None"
    and "create_accepted n1 b1 d"
    and "source_overlaps (c_startTime b2) (c_endTime b2) (c_startTime b1) (c_endTime b1)"
  shows "run (n1, b1) (n2, b2) [First, First, Second, Second] (d, Checking, Checking)
     = (created n1 b1 d, Responded (201, Booking_json (booking_data n1 b1)),
        Responded (409, Error_json ''Time slot conflicts with existing booking''))"
proof -
  have "findFirst (created n1 b1 d) (create_where (c_startTime b2) (c_endTime b2)) \<noteq> None"
    using assms(3)
    by (auto simp add: findFirst_None_iff matches_where_create created_def list_ex_iff
        booking_data_sel)
  then show ?thesis
    using assms(1,2)
    by (auto simp add: conflictingBooking_def booking_create_accepted)
qed

text \<open>
  C10. Two creation requests whose intervals overlap, on a store where neither finds a
  conflict: when both run their check before either runs its create, both are answered
  201 and both bookings are stored, overlapping.
\<close>

theorem C10_interleaved_creates_double_book:
  assumes "conflictingBooking d (c_startTime b1) (c_endTime b1) None = None"
    and "conflictingBooking d (c_startTime b2) (c_endTime b2) None = None"
    and "create_accepted n1 b1 d" and "create_accepted n2 b2 d" and "n1 \<noteq> n2"
    and "spec_overlaps (c_startTime b1) (c_endTime b1) (c_startTime b2) (c_endTime b2)"
  shows "run (n1, b1) (n2, b2) [First, Second] (d, Checking, Checking) = (d, Creating, Creating)
     \<and> run (n1, b1) (n2, b2) [First, Second, First, Second] (d, Checking, Checking)
         = (created n2 b2 (created n1 b1 d),
            Responded (201, Booking_json (booking_data n1 b1)),
            Responded (201, Booking_json (booking_data n2 b2)))
     \<and> bookings (created n2 b2 (created n1 b1 d))
         = bookings d @ [booking_data n1 b1, booking_data n2 b2]
     \<and> spec_overlaps (startTime (booking_data n1 b1)) (endTime (booking_data n1 b1))
          (startTime (booking_data n2 b2)) (endTime (booking_data n2 b2))"
proof -
  have c1: "findFirst d (create_where (c_startTime b1) (c_endTime b1)) = None"
    using assms(1) by (simp add: conflictingBooking_def)
  have c2: "findFirst d (create_where (c_startTime b2) (c_endTime b2)) = None"
    using assms(2) by (simp add: conflictingBooking_def)
  have checks: "run (n1, b1) (n2, b2) [First, Second] (d, Checking, Checking)
      = (d, Creating, Creating)"
    by (simp add: c1 c2)
  have a2: "create_accepted n2 b2 (created n1 b1 d)"
    using assms(4,5) by (rule create_accepted_created)
  have creates: "run (n1, b1) (n2, b2) [First, Second, First, Second] (d, Checking, Checking)
         = (created n2 b2 (created n1 b1 d),
            Responded (201, Booking_json (booking_data n1 b1)),
            Responded (201, Booking_json (booking_data n2 b2)))"
    by (simp add: c1 c2 booking_create_accepted [OF assms(3)] booking_create_accepted [OF a2])
  have rows: "bookings (created n2 b2 (created n1 b1 d))
         = bookings d @ [booking_data n1 b1, booking_data n2 b2]"
    by (simp add: created_def)
  have both: "spec_overlaps (startTime (booking_data n1 b1)) (endTime (booking_data n1 b1))
          (startTime (booking_data n2 b2)) (endTime (booking_data n2 b2))"
    using assms(6) by (simp add: booking_data_sel)
  from checks creates rows both show ?thesis by simp
qed

theorem C10_interleaved_creates_double_book_witness:
  "run (''b1'', mk_create (jan1 9 0) (jan1 10 0) [''u1''] [''s1''])
       (''b2'', mk_create (jan1 9 30) (jan1 10 30) [''u2''] [''s1''])
       [First, Second, First, Second] (mk_db [], Checking, Checking)
     = (\<lparr>users = [''u1'', ''u2''], services = [''s1'', ''s2''],
         bookings = [mk_booking ''b1'' (jan1 9 0) (jan1 10 0) CONFIRMED,
                     mk_booking ''b2'' (jan1 9 30) (jan1 10 30) CONFIRMED],
         bookings_on_users = [\<lparr>bu_bookingId = ''b1'', userId = ''u1''\<rparr>,
                              \<lparr>bu_bookingId = ''b2'', userId = ''u2''\<rparr>],
         bookings_on_services = [\<lparr>bs_bookingId = ''b1'', serviceId = ''s1''\<rparr>,
                                 \<lparr>bs_bookingId = ''b2'', serviceId = ''s1''\<rparr>]\<rparr>,
        Responded (201, Booking_json (mk_booking ''b1'' (jan1 9 0) (jan1 10 0) CONFIRMED)),
        Responded (201, Booking_json (mk_booking ''b2'' (jan1 9 30) (jan1 10 30) CONFIRMED)))
   \<and> spec_overlaps (jan1 9 0) (jan1 10 0) (jan1 9 30) (jan1 10 30)"
proof -
  let ?b1 = "mk_create (jan1 9 0) (jan1 10 0) [''u1''] [''s1'']"
  let ?b2 = "mk_create (jan1 9 30) (jan1 10 30) [''u2''] [''s1'']"
  have h1: "conflictingBooking (mk_db []) (c_startTime ?b1) (c_endTime ?b1) None = None"
    by (simp add: conflictingBooking_find mk_db_def)
  have h2: "conflictingBooking (mk_db []) (c_startTime ?b2) (c_endTime ?b2) None = None"
    by (simp add: conflictingBooking_find mk_db_def)
  have h3: "create_accepted ''b1'' ?b1 (mk_db [])"
    by (simp add: create_accepted_def mk_db_def mk_create_def)
  have h4: "create_accepted ''b2'' ?b2 (mk_db [])"
    by (simp add: create_accepted_def mk_db_def mk_create_def)
  have h5: "''b1'' \<noteq> ''b2''" by simp
  have h6: "spec_overlaps (c_startTime ?b1) (c_endTime ?b1) (c_startTime ?b2) (c_endTime ?b2)"
    by (simp add: spec_overlaps_def mk_create_def jan1_def)
  have shape: "created ''b2'' ?b2 (created ''b1'' ?b1 (mk_db []))
      = \<lparr>users = [''u1'', ''u2''], services = [''s1'', ''s2''],
         bookings = [mk_booking ''b1'' (jan1 9 0) (jan1 10 0) CONFIRMED,
                     mk_booking ''b2'' (jan1 9 30) (jan1 10 30) CONFIRMED],
         bookings_on_users = [\<lparr>bu_bookingId = ''b1'', userId = ''u1''\<rparr>,
                              \<lparr>bu_bookingId = ''b2'', userId = ''u2''\<rparr>],
         bookings_on_services = [\<lparr>bs_bookingId = ''b1'', serviceId = ''s1''\<rparr>,
                                 \<lparr>bs_bookingId = ''b2'', serviceId = ''s1''\<rparr>]\<rparr>"
    by (simp add: created_def booking_data_def mk_db_def mk_create_def mk_booking_def)
  have rows: "booking_data ''b1'' ?b1 = mk_booking ''b1'' (jan1 9 0) (jan1 10 0) CONFIRMED"
      "booking_data ''b2'' ?b2 = mk_booking ''b2'' (jan1 9 30) (jan1 10 30) CONFIRMED"
    by (simp_all add: booking_data_def mk_create_def mk_booking_def)
  have times: "spec_overlaps (jan1 9 0) (jan1 10 0) (jan1 9 30) (jan1 10 30)"
    by (simp add: spec_overlaps_def jan1_def)
  from C10_interleaved_creates_double_book [OF h1 h2 h3 h4 h5 h6] shape rows times
  show ?thesis by simp
qed

end
